theory Spec2Isabelle
  imports Main "HOL-Library.AList"
begin

section \<open>Python values and string formatting used by scaler.py\<close>

text \<open>
  The decimal digits of a natural number, most significant first: what Python's
  \<^verbatim>\<open>'{}'.format(i)\<close> prints for a non-negative \<^verbatim>\<open>int\<close>.
\<close>

fun py_digits :: "nat \<Rightarrow> string" where
  "py_digits n =
     (if n < 10 then [''0123456789'' ! n]
      else py_digits (n div 10) @ [''0123456789'' ! (n mod 10)])"

declare py_digits.simps [simp del]

text \<open>\<^verbatim>\<open>'{i}'.format(i=i)\<close> for a Python \<^verbatim>\<open>int\<close>: a minus sign, then the digits.\<close>

definition py_str :: "int \<Rightarrow> string" where
  "py_str i = (if i < 0 then CHR ''-'' # py_digits (nat (- i)) else py_digits (nat i))"

text \<open>
  \<^verbatim>\<open>'{:02d}'.format(k)\<close>: the decimal form, padded with zeros after the sign to a
  total width of two characters.
\<close>

definition py_format_02d :: "int \<Rightarrow> string" where
  "py_format_02d k =
     (if k < 0 then CHR ''-'' # py_digits (nat (- k))
      else replicate (2 - length (py_digits (nat k))) CHR ''0'' @ py_digits (nat k))"

text \<open>\<^verbatim>\<open>range(a, b)\<close>: the integers from \<open>a\<close> up to \<open>b - 1\<close>.\<close>

definition py_range :: "int \<Rightarrow> int \<Rightarrow> int list" where
  "py_range a b = [a..b - 1]"

section \<open>Component tables\<close>

text \<open>The classes a component table can name, and the \<^verbatim>\<open>Kind\<close> members the file uses.\<close>

datatype component_cls = EpicsSignal | EpicsSignalRO | ScalerChannel

datatype Kind = OMITTED | NORMAL | CONFIG | HINTED

text \<open>Keyword arguments: a dict from argument name to value.\<close>

datatype kwarg = KindArg Kind | IntArg int

type_synonym kwargs = "(string \<times> kwarg) list"

text \<open>
  An \<^verbatim>\<open>OrderedDict\<close> is an association list in insertion order;
  \<^verbatim>\<open>defn[attr] = v\<close> is \<^const>\<open>AList.update\<close>: an existing key keeps its place
  and takes the new value, a new key goes to the end.
\<close>

type_synonym component_defn = "(string \<times> component_cls \<times> string \<times> kwargs) list"

text \<open>\<^verbatim>\<open>_scaler_fields\<close>, lines 14 to 21: the loop body, then the loop over \<^verbatim>\<open>range_\<close>.\<close>

definition scaler_fields_step ::
  "component_cls \<Rightarrow> string \<Rightarrow> string \<Rightarrow> kwargs \<Rightarrow> component_defn \<Rightarrow> int \<Rightarrow> component_defn" where
  "scaler_fields_step cls attr_base field_base kw defn i =
     (let attr = attr_base @ py_str i;
          suffix = field_base @ py_str i
      in AList.update attr (cls, suffix, kw) defn)"

definition scaler_fields ::
  "component_cls \<Rightarrow> string \<Rightarrow> string \<Rightarrow> int list \<Rightarrow> kwargs \<Rightarrow> component_defn" where
  "scaler_fields cls attr_base field_base rng kw =
     foldl (scaler_fields_step cls attr_base field_base kw) [] rng"

text \<open>\<^verbatim>\<open>_sc_chans\<close>, lines 94 to 100.\<close>

definition sc_chans_step :: "string \<Rightarrow> component_defn \<Rightarrow> int \<Rightarrow> component_defn" where
  "sc_chans_step attr_fix defn k =
     AList.update (attr_fix @ py_format_02d k)
       (ScalerChannel, '''', [(''ch_num'', IntArg k), (''kind'', KindArg HINTED)]) defn"

definition sc_chans :: "string \<Rightarrow> int list \<Rightarrow> component_defn" where
  "sc_chans attr_fix id_range = foldl (sc_chans_step attr_fix) [] id_range"

text \<open>The four tables of \<^verbatim>\<open>EpicsScaler\<close> (lines 37 to 59) and the one of \<^verbatim>\<open>ScalerCH\<close> (line 108).\<close>

definition EpicsScaler_channels :: component_defn where
  "EpicsScaler_channels =
     scaler_fields EpicsSignalRO ''chan'' ''.S'' (py_range 1 33) [(''kind'', KindArg HINTED)]"

definition EpicsScaler_names :: component_defn where
  "EpicsScaler_names =
     scaler_fields EpicsSignal ''name'' ''.NM'' (py_range 1 33) [(''kind'', KindArg CONFIG)]"

definition EpicsScaler_presets :: component_defn where
  "EpicsScaler_presets =
     scaler_fields EpicsSignal ''preset'' ''.PR'' (py_range 1 33) [(''kind'', KindArg OMITTED)]"

definition EpicsScaler_gates :: component_defn where
  "EpicsScaler_gates =
     scaler_fields EpicsSignal ''gate'' ''.G'' (py_range 1 33) [(''kind'', KindArg OMITTED)]"

definition ScalerCH_channels :: component_defn where
  "ScalerCH_channels = sc_chans ''chan'' (py_range 1 33)"

section \<open>Devices and signals\<close>

text \<open>
  Every object of the device framework carries \<^verbatim>\<open>name\<close>, its display identity, a
  Python \<^verbatim>\<open>str\<close>. A signal adds the hardware address it is bound to; a device adds
  the address prefix its components are formatted from.
\<close>

record OphydObject =
  name :: string

record Signal = OphydObject +
  pvname :: string

record Device = OphydObject +
  prefix :: string

text \<open>
  The hardware: the current value behind every address. \<^verbatim>\<open>get()\<close> on a signal
  reads the value at the signal's address.
\<close>

type_synonym hardware = "string \<Rightarrow> string"

definition Signal_get :: "hardware \<Rightarrow> Signal \<Rightarrow> string" where
  "Signal_get hw sg = hw (pvname sg)"

text \<open>
  The exceptions of this file: \<^verbatim>\<open>AttributeError\<close> (the type of the object and the
  attribute it lacks) and the \<^verbatim>\<open>RuntimeError\<close> of line 167, which carries the two
  arguments of its message: the requested name and \<^verbatim>\<open>tuple(name_map)\<close>.
\<close>

datatype error = AttributeError string string | RuntimeError string "string list"

text \<open>
  A method returns \<^verbatim>\<open>None\<close> or raises; either way the object keeps what was
  assigned before. The outcome is the result paired with the object as the call left it.
\<close>

type_synonym 'a outcome = "(error + unit) \<times> 'a"

subsection \<open>ScalerChannel, lines 73 to 91\<close>

record scaler_channel = Device +
  ch_num :: int
  chname :: Signal
  s :: Signal
  preset :: Signal
  gate :: Signal

text \<open>\<^verbatim>\<open>match_name\<close>, lines 90 and 91: \<^verbatim>\<open>self.s.name = self.chname.get()\<close>.\<close>

definition match_name :: "hardware \<Rightarrow> scaler_channel \<Rightarrow> scaler_channel" where
  "match_name hw self = self\<lparr>s := (s self)\<lparr>name := Signal_get hw (chname self)\<rparr>\<rparr>"

text \<open>
  \<^verbatim>\<open>__init__\<close>, lines 83 to 88. The four components are formatted from the prefix and
  \<^verbatim>\<open>_ch_num\<close> (lines 78 to 81); then \<^verbatim>\<open>match_name\<close> runs. How the framework names
  a component from its parent's name and its attribute is the parameter \<open>nm\<close>.
\<close>

definition ScalerChannel_init ::
  "(string \<Rightarrow> string \<Rightarrow> string) \<Rightarrow> hardware \<Rightarrow> string \<Rightarrow> int \<Rightarrow> string \<Rightarrow> scaler_channel" where
  "ScalerChannel_init nm hw pfx n dev_name =
     match_name hw
       \<lparr>name = dev_name, prefix = pfx, ch_num = n,
        chname = \<lparr>name = nm dev_name ''chname'', pvname = pfx @ ''.NM'' @ py_str n\<rparr>,
        s = \<lparr>name = nm dev_name ''s'', pvname = pfx @ ''.S'' @ py_str n\<rparr>,
        preset = \<lparr>name = nm dev_name ''preset'', pvname = pfx @ ''.PR'' @ py_str n\<rparr>,
        gate = \<lparr>name = nm dev_name ''gate'', pvname = pfx @ ''.G'' @ py_str n\<rparr>\<rparr>"

subsection \<open>ScalerCH, lines 103 to 173\<close>

text \<open>
  The \<^verbatim>\<open>channels\<close> sub-device: its components by attribute name, in declared order,
  and its two attribute lists. \<^verbatim>\<open>getattr\<close> finds a component by name or raises;
  a method call on the component found mutates it in place.
\<close>

record channels_dev = Device +
  components :: "(string \<times> scaler_channel) list"
  read_attrs :: "string list"
  configuration_attrs :: "string list"

record ScalerCH = Device +
  channels :: channels_dev
  hints :: "(string \<times> string list) list"

definition component_names :: "channels_dev \<Rightarrow> string list" where
  "component_names chs = map fst (components chs)"

definition getattr :: "channels_dev \<Rightarrow> string \<Rightarrow> error + scaler_channel" where
  "getattr chs a =
     (case map_of (components chs) a of
        None \<Rightarrow> Inl (AttributeError ''channels'' a)
      | Some ch \<Rightarrow> Inr ch)"

definition put_component :: "string \<Rightarrow> scaler_channel \<Rightarrow> ScalerCH \<Rightarrow> ScalerCH" where
  "put_component a ch self =
     self\<lparr>channels := (channels self)\<lparr>components := AList.update a ch (components (channels self))\<rparr>\<rparr>"

text \<open>
  What \<^verbatim>\<open>super().__init__\<close> leaves (line 133): one \<^verbatim>\<open>ScalerChannel\<close> per entry of
  the table of line 108, constructed with the entry's \<^verbatim>\<open>ch_num\<close> on the prefix plus
  the entry's suffix. The attribute lists the framework starts with are the parameter
  \<open>attrs0\<close>.
\<close>

definition make_channel ::
  "(string \<Rightarrow> string \<Rightarrow> string) \<Rightarrow> hardware \<Rightarrow> string \<Rightarrow> string \<Rightarrow>
   string \<times> component_cls \<times> string \<times> kwargs \<Rightarrow> string \<times> scaler_channel" where
  "make_channel nm hw pfx parent_name entry =
     (case entry of (attr, cls, suffix, kw) \<Rightarrow>
        (attr,
         ScalerChannel_init nm hw (pfx @ suffix)
           (case map_of kw ''ch_num'' of Some (IntArg k) \<Rightarrow> k | _ \<Rightarrow> 0)
           (nm parent_name attr)))"

definition ScalerCH_new ::
  "(string \<Rightarrow> string \<Rightarrow> string) \<Rightarrow> hardware \<Rightarrow> string \<Rightarrow> string \<Rightarrow> string list \<Rightarrow> ScalerCH" where
  "ScalerCH_new nm hw pfx dev_name attrs0 =
     \<lparr>name = dev_name, prefix = pfx,
      channels =
        \<lparr>name = nm dev_name ''channels'', prefix = pfx,
         components = map (make_channel nm hw pfx (nm dev_name ''channels'')) ScalerCH_channels,
         read_attrs = attrs0, configuration_attrs = attrs0\<rparr>,
      hints = []\<rparr>"

text \<open>
  The body of \<^verbatim>\<open>__init__\<close>, lines 135 to 142. \<^verbatim>\<open>getattr(self.channels, s).name\<close> is
  the name of the channel device; it is tested for truth and it is what is appended.
\<close>

fun active_channels_loop :: "channels_dev \<Rightarrow> string list \<Rightarrow> string list \<Rightarrow> error + string list" where
  "active_channels_loop chs [] active_channels = Inr active_channels"
| "active_channels_loop chs (a # rest) active_channels =
     (case getattr chs a of
        Inl e \<Rightarrow> Inl e
      | Inr ch \<Rightarrow>
          (let ch_name = name ch
           in if ch_name \<noteq> [] then active_channels_loop chs rest (active_channels @ [ch_name])
              else active_channels_loop chs rest active_channels))"

definition ScalerCH_init :: "ScalerCH \<Rightarrow> ScalerCH outcome" where
  "ScalerCH_init self =
     (case active_channels_loop (channels self) (component_names (channels self)) [] of
        Inl e \<Rightarrow> (Inl e, self)
      | Inr active_channels \<Rightarrow>
          (Inr (),
           self\<lparr>channels :=
             (channels self)\<lparr>read_attrs := active_channels,
                              configuration_attrs := active_channels\<rparr>\<rparr>))"

text \<open>\<^verbatim>\<open>match_names\<close>, lines 144 to 146.\<close>

fun match_names_loop :: "hardware \<Rightarrow> string list \<Rightarrow> ScalerCH \<Rightarrow> ScalerCH outcome" where
  "match_names_loop hw [] self = (Inr (), self)"
| "match_names_loop hw (a # rest) self =
     (case getattr (channels self) a of
        Inl e \<Rightarrow> (Inl e, self)
      | Inr ch \<Rightarrow> match_names_loop hw rest (put_component a (match_name hw ch) self))"

definition match_names :: "hardware \<Rightarrow> ScalerCH \<Rightarrow> ScalerCH outcome" where
  "match_names hw self = match_names_loop hw (component_names (channels self)) self"

text \<open>
  \<^verbatim>\<open>select_channels\<close>, lines 148 to 173.

  Lines 159 and 160 build \<^verbatim>\<open>name_map\<close>. The key of each entry is
  \<^verbatim>\<open>getattr(self.channels, s).name.get()\<close>: \<^verbatim>\<open>ScalerChannel\<close> declares the components
  \<^verbatim>\<open>chname\<close>, \<^verbatim>\<open>s\<close>, \<^verbatim>\<open>preset\<close> and \<^verbatim>\<open>gate\<close>, so \<^verbatim>\<open>.name\<close> is the name of the
  channel device, a \<^verbatim>\<open>str\<close>, and a \<^verbatim>\<open>str\<close> has no attribute \<^verbatim>\<open>get\<close>.
\<close>

definition str_get :: "string \<Rightarrow> error + string" where
  "str_get v = Inl (AttributeError ''str'' ''get'')"

fun name_map_loop ::
  "channels_dev \<Rightarrow> string list \<Rightarrow> (string \<times> string) list \<Rightarrow> error + (string \<times> string) list" where
  "name_map_loop chs [] name_map = Inr name_map"
| "name_map_loop chs (a # rest) name_map =
     (case getattr chs a of
        Inl e \<Rightarrow> Inl e
      | Inr ch \<Rightarrow>
          (case str_get (name ch) of
             Inl e \<Rightarrow> Inl e
           | Inr key \<Rightarrow> name_map_loop chs rest (AList.update key a name_map)))"

text \<open>Lines 162 to 169: the loop over \<^verbatim>\<open>chan_names\<close>; a \<^verbatim>\<open>KeyError\<close> becomes the \<^verbatim>\<open>RuntimeError\<close>.\<close>

fun read_attrs_loop ::
  "(string \<times> string) list \<Rightarrow> string list \<Rightarrow> string list \<Rightarrow> error + string list" where
  "read_attrs_loop name_map [] attrs = Inr attrs"
| "read_attrs_loop name_map (c # rest) attrs =
     (case map_of name_map c of
        None \<Rightarrow> Inl (RuntimeError c (map fst name_map))
      | Some a \<Rightarrow> read_attrs_loop name_map rest (attrs @ [a]))"

text \<open>Lines 172 and 173: \<^verbatim>\<open>[getattr(self.channels, ch).s.name for ch in read_attrs[1:]]\<close>.\<close>

fun hints_loop :: "channels_dev \<Rightarrow> string list \<Rightarrow> error + string list" where
  "hints_loop chs [] = Inr []"
| "hints_loop chs (a # rest) =
     (case getattr chs a of
        Inl e \<Rightarrow> Inl e
      | Inr ch \<Rightarrow>
          (case hints_loop chs rest of
             Inl e \<Rightarrow> Inl e
           | Inr flds \<Rightarrow> Inr (name (s ch) # flds)))"

text \<open>Lines 162 to 173, given \<^verbatim>\<open>name_map\<close>.\<close>

definition select_from :: "(string \<times> string) list \<Rightarrow> string list \<Rightarrow> ScalerCH \<Rightarrow> ScalerCH outcome" where
  "select_from name_map chan_names self =
     (case read_attrs_loop name_map chan_names [''chan01''] of
        Inl e \<Rightarrow> (Inl e, self)
      | Inr attrs \<Rightarrow>
          (let self' = self\<lparr>channels :=
                 (channels self)\<lparr>read_attrs := attrs, configuration_attrs := attrs\<rparr>\<rparr>
           in case hints_loop (channels self') (tl attrs) of
                Inl e \<Rightarrow> (Inl e, self')
              | Inr flds \<Rightarrow> (Inr (), self'\<lparr>hints := [(''fields'', flds)]\<rparr>)))"

definition select_channels :: "hardware \<Rightarrow> string list \<Rightarrow> ScalerCH \<Rightarrow> ScalerCH outcome" where
  "select_channels hw chan_names self =
     (case match_names hw self of
        (Inl e, self1) \<Rightarrow> (Inl e, self1)
      | (Inr u, self1) \<Rightarrow>
          (case name_map_loop (channels self1) (component_names (channels self1)) [] of
             Inl e \<Rightarrow> (Inl e, self1)
           | Inr name_map \<Rightarrow> select_from name_map chan_names self1))"

section \<open>Example devices\<close>

text \<open>
  A naming rule for the examples: the name of a component is its parent's name, an
  underscore and its attribute.
\<close>

definition ophyd_name :: "string \<Rightarrow> string \<Rightarrow> string" where
  "ophyd_name parent attr = parent @ ''_'' @ attr"

text \<open>
  Three hardware states of the scaler at address \<^verbatim>\<open>P\<close>: channels 1, 4 and 9 named and
  all others empty; channels 3 and 5 named \<^verbatim>\<open>A\<close> and \<^verbatim>\<open>B\<close>; channels 2 and 7 both
  named \<^verbatim>\<open>X\<close>.
\<close>

definition hw_149 :: hardware where
  "hw_149 pv = (if pv = ''P.NM1'' then ''clock'' else if pv = ''P.NM4'' then ''I0''
                else if pv = ''P.NM9'' then ''It'' else [])"

definition hw_35 :: hardware where
  "hw_35 pv = (if pv = ''P.NM3'' then ''A'' else if pv = ''P.NM5'' then ''B'' else [])"

definition hw_XX :: hardware where
  "hw_XX pv = (if pv = ''P.NM2'' then ''X'' else if pv = ''P.NM7'' then ''X'' else [])"

text \<open>The device \<^verbatim>\<open>ScalerCH('P', name='sc')\<close> as its construction on \<open>hw\<close> leaves it.\<close>

definition example_scaler :: "hardware \<Rightarrow> ScalerCH" where
  "example_scaler hw = snd (ScalerCH_init (ScalerCH_new ophyd_name hw ''P'' ''sc'' []))"

section \<open>Selectors under updates of signal-valued fields\<close>

lemma name_s_update [simp]: "name (s_update f (ch :: scaler_channel)) = name ch"
  by (cases ch) simp

lemma name_channels_update [simp]: "name (channels_update f (self :: ScalerCH)) = name self"
  by (cases self) simp

lemma prefix_channels_update [simp]: "prefix (channels_update f (self :: ScalerCH)) = prefix self"
  by (cases self) simp

lemma name_components_update [simp]: "name (components_update f (chs :: channels_dev)) = name chs"
  by (cases chs) simp

lemma prefix_components_update [simp]:
  "prefix (components_update f (chs :: channels_dev)) = prefix chs"
  by (cases chs) simp

section \<open>The component tables\<close>

lemma EpicsScaler_channels_eq:
  "EpicsScaler_channels =
       map (\<lambda>i. (''chan'' @ py_str i, EpicsSignalRO, ''.S'' @ py_str i, [(''kind'', KindArg HINTED)])) [1..32]"
  by code_simp

lemma EpicsScaler_names_eq:
  "EpicsScaler_names =
       map (\<lambda>i. (''name'' @ py_str i, EpicsSignal, ''.NM'' @ py_str i, [(''kind'', KindArg CONFIG)])) [1..32]"
  by code_simp

lemma EpicsScaler_presets_eq:
  "EpicsScaler_presets =
       map (\<lambda>i. (''preset'' @ py_str i, EpicsSignal, ''.PR'' @ py_str i, [(''kind'', KindArg OMITTED)])) [1..32]"
  by code_simp

lemma EpicsScaler_gates_eq:
  "EpicsScaler_gates =
       map (\<lambda>i. (''gate'' @ py_str i, EpicsSignal, ''.G'' @ py_str i, [(''kind'', KindArg OMITTED)])) [1..32]"
  by code_simp

lemma ScalerCH_channels_eq:
  "ScalerCH_channels =
       map (\<lambda>k. (''chan'' @ py_format_02d k, ScalerChannel, [],
                  [(''ch_num'', IntArg k), (''kind'', KindArg HINTED)])) [1..32]"
  by code_simp

lemma EpicsScaler_channels_keys:
  "map fst EpicsScaler_channels =
     [''chan1'', ''chan2'', ''chan3'', ''chan4'', ''chan5'', ''chan6'', ''chan7'',
      ''chan8'', ''chan9'', ''chan10'', ''chan11'', ''chan12'', ''chan13'', ''chan14'',
      ''chan15'', ''chan16'', ''chan17'', ''chan18'', ''chan19'', ''chan20'',
      ''chan21'', ''chan22'', ''chan23'', ''chan24'', ''chan25'', ''chan26'',
      ''chan27'', ''chan28'', ''chan29'', ''chan30'', ''chan31'', ''chan32'']"
  by code_simp

lemma ScalerCH_channels_keys:
  "map fst ScalerCH_channels =
     [''chan01'', ''chan02'', ''chan03'', ''chan04'', ''chan05'', ''chan06'',
      ''chan07'', ''chan08'', ''chan09'', ''chan10'', ''chan11'', ''chan12'',
      ''chan13'', ''chan14'', ''chan15'', ''chan16'', ''chan17'', ''chan18'',
      ''chan19'', ''chan20'', ''chan21'', ''chan22'', ''chan23'', ''chan24'',
      ''chan25'', ''chan26'', ''chan27'', ''chan28'', ''chan29'', ''chan30'',
      ''chan31'', ''chan32'']"
  by code_simp

lemma component_keys_distinct:
  "distinct (map fst EpicsScaler_channels) \<and> distinct (map fst EpicsScaler_names) \<and>
   distinct (map fst EpicsScaler_presets) \<and> distinct (map fst EpicsScaler_gates) \<and>
   distinct (map fst ScalerCH_channels)"
  by code_simp

text \<open>
  C5. For the indices 1 to 32, in the order of the range and with no key twice, the four
  tables of \<^verbatim>\<open>EpicsScaler\<close> pair the unpadded keys \<^verbatim>\<open>chan{i}\<close>, \<^verbatim>\<open>name{i}\<close>,
  \<^verbatim>\<open>preset{i}\<close>, \<^verbatim>\<open>gate{i}\<close> with the suffixes \<^verbatim>\<open>.S{i}\<close>, \<^verbatim>\<open>.NM{i}\<close>,
  \<^verbatim>\<open>.PR{i}\<close>, \<^verbatim>\<open>.G{i}\<close>, and the table of \<^verbatim>\<open>ScalerCH\<close> pairs the zero-padded
  keys \<^verbatim>\<open>chan01\<close> to \<^verbatim>\<open>chan32\<close> with the channel index.
\<close>

theorem component_tables_exact:
  "EpicsScaler_channels =
       map (\<lambda>i. (''chan'' @ py_str i, EpicsSignalRO, ''.S'' @ py_str i, [(''kind'', KindArg HINTED)])) [1..32] \<and>
   EpicsScaler_names =
       map (\<lambda>i. (''name'' @ py_str i, EpicsSignal, ''.NM'' @ py_str i, [(''kind'', KindArg CONFIG)])) [1..32] \<and>
   EpicsScaler_presets =
       map (\<lambda>i. (''preset'' @ py_str i, EpicsSignal, ''.PR'' @ py_str i, [(''kind'', KindArg OMITTED)])) [1..32] \<and>
   EpicsScaler_gates =
       map (\<lambda>i. (''gate'' @ py_str i, EpicsSignal, ''.G'' @ py_str i, [(''kind'', KindArg OMITTED)])) [1..32] \<and>
   ScalerCH_channels =
       map (\<lambda>k. (''chan'' @ py_format_02d k, ScalerChannel, [],
                  [(''ch_num'', IntArg k), (''kind'', KindArg HINTED)])) [1..32] \<and>
   map fst EpicsScaler_channels =
     [''chan1'', ''chan2'', ''chan3'', ''chan4'', ''chan5'', ''chan6'', ''chan7'',
      ''chan8'', ''chan9'', ''chan10'', ''chan11'', ''chan12'', ''chan13'', ''chan14'',
      ''chan15'', ''chan16'', ''chan17'', ''chan18'', ''chan19'', ''chan20'',
      ''chan21'', ''chan22'', ''chan23'', ''chan24'', ''chan25'', ''chan26'',
      ''chan27'', ''chan28'', ''chan29'', ''chan30'', ''chan31'', ''chan32''] \<and>
   map fst ScalerCH_channels =
     [''chan01'', ''chan02'', ''chan03'', ''chan04'', ''chan05'', ''chan06'',
      ''chan07'', ''chan08'', ''chan09'', ''chan10'', ''chan11'', ''chan12'',
      ''chan13'', ''chan14'', ''chan15'', ''chan16'', ''chan17'', ''chan18'',
      ''chan19'', ''chan20'', ''chan21'', ''chan22'', ''chan23'', ''chan24'',
      ''chan25'', ''chan26'', ''chan27'', ''chan28'', ''chan29'', ''chan30'',
      ''chan31'', ''chan32''] \<and>
   distinct (map fst EpicsScaler_channels) \<and> distinct (map fst EpicsScaler_names) \<and>
   distinct (map fst EpicsScaler_presets) \<and> distinct (map fst EpicsScaler_gates) \<and>
   distinct (map fst ScalerCH_channels)"
  using EpicsScaler_channels_eq EpicsScaler_names_eq EpicsScaler_presets_eq
    EpicsScaler_gates_eq ScalerCH_channels_eq EpicsScaler_channels_keys
    ScalerCH_channels_keys component_keys_distinct
  by blast

section \<open>match_name\<close>

text \<open>
  C6. Calling \<^verbatim>\<open>match_name\<close> a second time on unchanged hardware leaves the channel,
  and so the display identity of its count-value field, as the first call left it.
\<close>

theorem match_name_idempotent:
  "match_name hw (match_name hw ch) = match_name hw ch \<and>
   name (s (match_name hw (match_name hw ch))) = name (s (match_name hw ch))"
  by (simp add: match_name_def Signal_get_def)

text \<open>
  C10. \<^verbatim>\<open>match_name\<close> changes the display identity of the count-value field only: the
  index, the prefix, the channel's own name, the name, preset and gate fields and the
  address of the count-value field are as before, and so is what each field reads.
\<close>

theorem match_name_frame:
  "ch_num (match_name hw ch) = ch_num ch \<and> prefix (match_name hw ch) = prefix ch \<and>
   name (match_name hw ch) = name ch \<and> chname (match_name hw ch) = chname ch \<and>
   preset (match_name hw ch) = preset ch \<and> gate (match_name hw ch) = gate ch \<and>
   pvname (s (match_name hw ch)) = pvname (s ch) \<and>
   Signal_get hw (chname (match_name hw ch)) = Signal_get hw (chname ch) \<and>
   Signal_get hw (s (match_name hw ch)) = Signal_get hw (s ch) \<and>
   Signal_get hw (preset (match_name hw ch)) = Signal_get hw (preset ch) \<and>
   Signal_get hw (gate (match_name hw ch)) = Signal_get hw (gate ch)"
  by (simp add: match_name_def Signal_get_def)

section \<open>Looking components up\<close>

lemma getattr_component:
  "a \<in> fst ` set (components chs) \<Longrightarrow> \<exists>ch. getattr chs a = Inr ch \<and> map_of (components chs) a = Some ch"
  by (cases "map_of (components chs) a") (auto simp: getattr_def map_of_eq_None_iff)

lemma match_name_twice: "match_name hw (match_name hw ch) = match_name hw ch"
  by (simp add: match_name_def Signal_get_def)


section \<open>match_names\<close>

lemma match_names_loop_ok:
  "set as \<subseteq> fst ` set (components (channels self)) \<Longrightarrow>
   \<exists>cs. match_names_loop hw as self =
           (Inr (), self\<lparr>channels := (channels self)\<lparr>components := cs\<rparr>\<rparr>) \<and>
        map fst cs = map fst (components (channels self)) \<and>
        (\<forall>a. map_of cs a =
           (if a \<in> set as then map_option (match_name hw) (map_of (components (channels self)) a)
            else map_of (components (channels self)) a))"
proof (induction as arbitrary: self)
  case Nil
  show ?case by (rule exI [of _ "components (channels self)"]) simp
next
  case (Cons a rest)
  let ?cs0 = "components (channels self)"
  from Cons.prems have a_in: "a \<in> fst ` set ?cs0" by simp
  then obtain ch where ga: "getattr (channels self) a = Inr ch" and mo: "map_of ?cs0 a = Some ch"
    using getattr_component by blast
  let ?self1 = "put_component a (match_name hw ch) self"
  have cs1: "components (channels ?self1) = AList.update a (match_name hw ch) ?cs0"
    by (simp add: put_component_def)
  have keys1: "map fst (components (channels ?self1)) = map fst ?cs0"
    using a_in by (simp add: cs1 update_keys)
  have "set rest \<subseteq> fst ` set (components (channels ?self1))"
    using Cons.prems keys1 by (metis list.set_map set_subset_Cons subset_trans)
  from Cons.IH [OF this] obtain cs where
    run: "match_names_loop hw rest ?self1 =
            (Inr (), ?self1\<lparr>channels := (channels ?self1)\<lparr>components := cs\<rparr>\<rparr>)" and
    keys: "map fst cs = map fst (components (channels ?self1))" and
    look: "\<And>b. map_of cs b =
           (if b \<in> set rest then map_option (match_name hw) (map_of (components (channels ?self1)) b)
            else map_of (components (channels ?self1)) b)"
    by blast
  have same: "?self1\<lparr>channels := (channels ?self1)\<lparr>components := cs\<rparr>\<rparr> =
              self\<lparr>channels := (channels self)\<lparr>components := cs\<rparr>\<rparr>"
    by (simp add: put_component_def)
  have "\<forall>b. map_of cs b =
           (if b \<in> set (a # rest) then map_option (match_name hw) (map_of ?cs0 b)
            else map_of ?cs0 b)"
    by (simp add: look cs1 update_conv' mo match_name_twice)
  then show ?case
    using ga run same keys keys1 by (intro exI [of _ cs]) simp
qed

lemma match_names_ok:
  "\<exists>cs. match_names hw self = (Inr (), self\<lparr>channels := (channels self)\<lparr>components := cs\<rparr>\<rparr>) \<and>
        map fst cs = map fst (components (channels self)) \<and>
        (\<forall>a. map_of cs a = map_option (match_name hw) (map_of (components (channels self)) a))"
proof -
  let ?cs0 = "components (channels self)"
  have "set (component_names (channels self)) \<subseteq> fst ` set ?cs0"
    by (simp add: component_names_def)
  from match_names_loop_ok [OF this, of hw] obtain cs where
    run: "match_names hw self = (Inr (), self\<lparr>channels := (channels self)\<lparr>components := cs\<rparr>\<rparr>)" and
    keys: "map fst cs = map fst ?cs0" and
    look: "\<And>a. map_of cs a =
           (if a \<in> set (component_names (channels self))
            then map_option (match_name hw) (map_of ?cs0 a) else map_of ?cs0 a)"
    unfolding match_names_def by blast
  have "map_of cs a = map_option (match_name hw) (map_of ?cs0 a)" for a
  proof (cases "a \<in> set (component_names (channels self))")
    case True
    then show ?thesis by (simp add: look)
  next
    case False
    then have "map_of ?cs0 a = None"
      by (simp add: component_names_def map_of_eq_None_iff)
    then show ?thesis using False by (simp add: look)
  qed
  then show ?thesis using run keys by blast
qed

lemma match_names_no_components:
  "components (channels self) = [] \<Longrightarrow> match_names hw self = (Inr (), self)"
  by (simp add: match_names_def component_names_def)

lemma match_names_attrs:
  "read_attrs (channels (snd (match_names hw self))) = read_attrs (channels self) \<and>
   configuration_attrs (channels (snd (match_names hw self))) = configuration_attrs (channels self) \<and>
   hints (snd (match_names hw self)) = hints self \<and>
   fst (match_names hw self) = Inr ()"
  using match_names_ok [of hw self] by auto

lemma match_names_getattr:
  assumes "a \<in> set (component_names (channels self))"
  shows "\<exists>ch. getattr (channels (snd (match_names hw self))) a = Inr ch \<and>
              name (s ch) = Signal_get hw (chname ch)"
proof -
  obtain cs where
    run: "match_names hw self = (Inr (), self\<lparr>channels := (channels self)\<lparr>components := cs\<rparr>\<rparr>)" and
    look: "\<And>b. map_of cs b = map_option (match_name hw) (map_of (components (channels self)) b)"
    using match_names_ok by blast
  from assms obtain ch0 where ch0: "map_of (components (channels self)) a = Some ch0"
    using getattr_component [of a "channels self"] by (auto simp: component_names_def)
  have "getattr (channels (snd (match_names hw self))) a = Inr (match_name hw ch0)"
    by (simp add: run getattr_def look ch0)
  moreover have "name (s (match_name hw ch0)) = Signal_get hw (chname (match_name hw ch0))"
    by (simp add: match_name_def Signal_get_def)
  ultimately show ?thesis by blast
qed


section \<open>Construction\<close>

lemma the_map_of_component:
  assumes "distinct (map fst cs)"
  shows "\<forall>p \<in> set cs. the (map_of cs (fst p)) = snd p"
proof -
  have "the (map_of cs a) = v" if "(a, v) \<in> set cs" for a v
    using that assms by (simp add: map_of_is_SomeI)
  then show ?thesis by auto
qed

lemma active_channels_loop_ok:
  "set as \<subseteq> fst ` set (components chs) \<Longrightarrow>
   active_channels_loop chs as acc =
     Inr (acc @ filter (\<lambda>n. n \<noteq> []) (map (\<lambda>a. name (the (map_of (components chs) a))) as))"
proof (induction as arbitrary: acc)
  case Nil
  then show ?case by simp
next
  case (Cons a rest)
  then obtain ch where "getattr chs a = Inr ch" "map_of (components chs) a = Some ch"
    using getattr_component by (metis insert_subset list.set(2))
  then show ?case using Cons by simp
qed

lemma ScalerCH_init_ok:
  "ScalerCH_init self =
     (Inr (),
      self\<lparr>channels := (channels self)
        \<lparr>read_attrs := filter (\<lambda>n. n \<noteq> [])
             (map (\<lambda>a. name (the (map_of (components (channels self)) a))) (component_names (channels self))),
         configuration_attrs := filter (\<lambda>n. n \<noteq> [])
             (map (\<lambda>a. name (the (map_of (components (channels self)) a))) (component_names (channels self)))\<rparr>\<rparr>)"
proof -
  have "set (component_names (channels self)) \<subseteq> fst ` set (components (channels self))"
    by (simp add: component_names_def)
  from active_channels_loop_ok [OF this, of "[]"] show ?thesis
    by (simp add: ScalerCH_init_def)
qed

lemma ScalerCH_init_distinct:
  assumes "distinct (component_names (channels self))"
  shows "read_attrs (channels (snd (ScalerCH_init self))) =
     filter (\<lambda>n. n \<noteq> []) (map (\<lambda>p. name (snd p)) (components (channels self)))"
proof -
  have "\<forall>p \<in> set (components (channels self)).
          the (map_of (components (channels self)) (fst p)) = snd p"
    using assms the_map_of_component by (simp add: component_names_def)
  then have "map (\<lambda>a. name (the (map_of (components (channels self)) a)))
               (component_names (channels self))
             = map (\<lambda>p. name (snd p)) (components (channels self))"
    by (simp add: component_names_def)
  then show ?thesis by (simp add: ScalerCH_init_ok)
qed

lemma make_channel_fst: "fst (make_channel nm hw pfx parent e) = fst e"
  by (cases e) (simp add: make_channel_def)

lemma make_channel_name: "name (snd (make_channel nm hw pfx parent e)) = nm parent (fst e)"
  by (cases e) (simp add: make_channel_def ScalerChannel_init_def match_name_def)

lemma ScalerCH_new_names:
  "component_names (channels (ScalerCH_new nm hw pfx dev_name attrs0)) = map fst ScalerCH_channels"
  by (simp add: component_names_def ScalerCH_new_def make_channel_fst comp_def)

lemma ScalerCH_init_new:
  "read_attrs (channels (snd (ScalerCH_init (ScalerCH_new nm hw pfx dev_name attrs0)))) =
     filter (\<lambda>n. n \<noteq> []) (map (nm (nm dev_name ''channels'')) (map fst ScalerCH_channels))"
proof -
  have "distinct (component_names (channels (ScalerCH_new nm hw pfx dev_name attrs0)))"
    using component_keys_distinct by (simp add: ScalerCH_new_names)
  from ScalerCH_init_distinct [OF this] show ?thesis
    by (simp add: ScalerCH_new_def make_channel_name comp_def)
qed

lemma hw_149_named:
  "map fst (filter (\<lambda>p. Signal_get hw_149 (chname (snd p)) \<noteq> [])
      (components (channels (ScalerCH_new ophyd_name hw_149 ''P'' ''sc'' [])))) =
     [''chan01'', ''chan04'', ''chan09'']"
  by code_simp

lemma example_read_attrs:
  "read_attrs (channels (snd (ScalerCH_init (ScalerCH_new ophyd_name hw ''P'' ''sc'' [])))) =
     [''sc_channels_chan01'', ''sc_channels_chan02'', ''sc_channels_chan03'',
      ''sc_channels_chan04'', ''sc_channels_chan05'', ''sc_channels_chan06'',
      ''sc_channels_chan07'', ''sc_channels_chan08'', ''sc_channels_chan09'',
      ''sc_channels_chan10'', ''sc_channels_chan11'', ''sc_channels_chan12'',
      ''sc_channels_chan13'', ''sc_channels_chan14'', ''sc_channels_chan15'',
      ''sc_channels_chan16'', ''sc_channels_chan17'', ''sc_channels_chan18'',
      ''sc_channels_chan19'', ''sc_channels_chan20'', ''sc_channels_chan21'',
      ''sc_channels_chan22'', ''sc_channels_chan23'', ''sc_channels_chan24'',
      ''sc_channels_chan25'', ''sc_channels_chan26'', ''sc_channels_chan27'',
      ''sc_channels_chan28'', ''sc_channels_chan29'', ''sc_channels_chan30'',
      ''sc_channels_chan31'', ''sc_channels_chan32'']"
  by (simp add: ScalerCH_init_new ScalerCH_channels_keys ophyd_name_def)


text \<open>
  C1. On the hardware \<open>hw_149\<close>, where exactly the channels 1, 4 and 9 report a
  non-empty name, lines 135 to 142 assign to the read set and to the configuration read
  set the names of all 32 channel devices, not the identifiers \<^verbatim>\<open>chan01\<close>,
  \<^verbatim>\<open>chan04\<close>, \<^verbatim>\<open>chan09\<close>: lines 137 to 139 test and append the name of the
  channel device, which no hardware name enters.
\<close>

theorem init_lists_channel_device_names:
  "map fst (filter (\<lambda>p. Signal_get hw_149 (chname (snd p)) \<noteq> [])
      (components (channels (ScalerCH_new ophyd_name hw_149 ''P'' ''sc'' [])))) =
     [''chan01'', ''chan04'', ''chan09''] \<and>
   fst (ScalerCH_init (ScalerCH_new ophyd_name hw_149 ''P'' ''sc'' [])) = Inr () \<and>
   read_attrs (channels (snd (ScalerCH_init (ScalerCH_new ophyd_name hw_149 ''P'' ''sc'' [])))) =
     [''sc_channels_chan01'', ''sc_channels_chan02'', ''sc_channels_chan03'',
      ''sc_channels_chan04'', ''sc_channels_chan05'', ''sc_channels_chan06'',
      ''sc_channels_chan07'', ''sc_channels_chan08'', ''sc_channels_chan09'',
      ''sc_channels_chan10'', ''sc_channels_chan11'', ''sc_channels_chan12'',
      ''sc_channels_chan13'', ''sc_channels_chan14'', ''sc_channels_chan15'',
      ''sc_channels_chan16'', ''sc_channels_chan17'', ''sc_channels_chan18'',
      ''sc_channels_chan19'', ''sc_channels_chan20'', ''sc_channels_chan21'',
      ''sc_channels_chan22'', ''sc_channels_chan23'', ''sc_channels_chan24'',
      ''sc_channels_chan25'', ''sc_channels_chan26'', ''sc_channels_chan27'',
      ''sc_channels_chan28'', ''sc_channels_chan29'', ''sc_channels_chan30'',
      ''sc_channels_chan31'', ''sc_channels_chan32''] \<and>
   configuration_attrs (channels (snd (ScalerCH_init (ScalerCH_new ophyd_name hw_149 ''P'' ''sc'' [])))) =
     read_attrs (channels (snd (ScalerCH_init (ScalerCH_new ophyd_name hw_149 ''P'' ''sc'' []))))"
  using hw_149_named example_read_attrs [of hw_149]
  by (simp add: ScalerCH_init_ok)


section \<open>select_channels\<close>

lemma name_map_loop_raises:
  "a \<in> fst ` set (components chs) \<Longrightarrow>
   name_map_loop chs (a # rest) m = Inl (AttributeError ''str'' ''get'')"
  using getattr_component [of a chs] by (auto simp: str_get_def)

lemma select_channels_raises:
  assumes "components (channels self) \<noteq> []"
  shows "select_channels hw names self =
           (Inl (AttributeError ''str'' ''get''), snd (match_names hw self))"
proof -
  obtain cs where
    run: "match_names hw self = (Inr (), self\<lparr>channels := (channels self)\<lparr>components := cs\<rparr>\<rparr>)" and
    keys: "map fst cs = map fst (components (channels self))"
    using match_names_ok by blast
  from assms keys obtain p rest where cs: "cs = p # rest"
    by (cases cs) auto
  have "name_map_loop (channels (self\<lparr>channels := (channels self)\<lparr>components := cs\<rparr>\<rparr>))
          (component_names (channels (self\<lparr>channels := (channels self)\<lparr>components := cs\<rparr>\<rparr>))) []
        = Inl (AttributeError ''str'' ''get'')"
    unfolding component_names_def by (simp add: cs name_map_loop_raises del: name_map_loop.simps)
  then show ?thesis by (simp add: select_channels_def run)
qed

lemma select_channels_no_components:
  assumes "components (channels self) = []"
  shows "select_channels hw names self = select_from [] names self"
  using assms by (simp add: select_channels_def match_names_def component_names_def)

lemma select_from_empty:
  "select_from [] chan_names self =
     (case chan_names of
        [] \<Rightarrow> (Inr (), self\<lparr>channels := (channels self)\<lparr>read_attrs := [''chan01''],
                     configuration_attrs := [''chan01'']\<rparr>, hints := [(''fields'', [])]\<rparr>)
      | c # rest \<Rightarrow> (Inl (RuntimeError c []), self))"
  by (cases chan_names) (simp_all add: select_from_def)

lemma select_channels_cases:
  "select_channels hw chan_names self =
     (if components (channels self) = [] then select_from [] chan_names self
      else (Inl (AttributeError ''str'' ''get''), snd (match_names hw self)))"
  using select_channels_raises [of self hw chan_names]
    select_channels_no_components [of self hw chan_names] by simp


text \<open>
  C8. Whatever \<^verbatim>\<open>select_channels\<close> goes on to do, \<^verbatim>\<open>match_names\<close> has run first:
  in the object the call leaves, every component found by name has the display identity
  of its count-value field equal to what its name field reads on the hardware, and the
  components are exactly those \<^verbatim>\<open>match_names\<close> leaves (nothing is restored). When the
  call raises, the read set and the configuration read set are those from before the call.
\<close>

theorem select_channels_matches_names_first:
  "(\<forall>a \<in> set (component_names (channels self)).
      \<exists>ch. getattr (channels (snd (select_channels hw chan_names self))) a = Inr ch \<and>
           name (s ch) = Signal_get hw (chname ch)) \<and>
   components (channels (snd (select_channels hw chan_names self))) =
     components (channels (snd (match_names hw self))) \<and>
   (isl (fst (select_channels hw chan_names self)) \<longrightarrow>
      read_attrs (channels (snd (select_channels hw chan_names self))) = read_attrs (channels self) \<and>
      configuration_attrs (channels (snd (select_channels hw chan_names self))) =
        configuration_attrs (channels self))"
proof (cases "components (channels self) = []")
  case True
  then have "component_names (channels self) = []"
    by (simp add: component_names_def)
  then show ?thesis
    using True
    by (cases chan_names)
       (simp_all add: select_channels_cases select_from_empty match_names_no_components)
next
  case False
  then have sel: "select_channels hw chan_names self =
                    (Inl (AttributeError ''str'' ''get''), snd (match_names hw self))"
    by (simp add: select_channels_cases)
  show ?thesis
    using match_names_getattr [of _ self hw] match_names_attrs [of hw self]
    by (simp add: sel)
qed


text \<open>
  C9. Construction returns with the read set equal to the configuration read set. After
  \<^verbatim>\<open>select_channels\<close> the two lists are equal, or else the call has raised and both
  are what they were before it; so a call that returns leaves them equal, and the two
  never come apart under these two operations.
\<close>

theorem read_and_configuration_attrs_agree:
  "fst (ScalerCH_init self) = Inr () \<and>
   read_attrs (channels (snd (ScalerCH_init self))) =
     configuration_attrs (channels (snd (ScalerCH_init self))) \<and>
   (read_attrs (channels (snd (select_channels hw chan_names self'))) =
      configuration_attrs (channels (snd (select_channels hw chan_names self'))) \<or>
    isl (fst (select_channels hw chan_names self')) \<and>
    read_attrs (channels (snd (select_channels hw chan_names self'))) = read_attrs (channels self') \<and>
    configuration_attrs (channels (snd (select_channels hw chan_names self'))) =
      configuration_attrs (channels self'))"
proof -
  have init: "fst (ScalerCH_init self) = Inr () \<and>
     read_attrs (channels (snd (ScalerCH_init self))) =
       configuration_attrs (channels (snd (ScalerCH_init self)))"
    by (simp add: ScalerCH_init_ok)
  have sel: "read_attrs (channels (snd (select_channels hw chan_names self'))) =
      configuration_attrs (channels (snd (select_channels hw chan_names self'))) \<or>
    isl (fst (select_channels hw chan_names self')) \<and>
    read_attrs (channels (snd (select_channels hw chan_names self'))) = read_attrs (channels self') \<and>
    configuration_attrs (channels (snd (select_channels hw chan_names self'))) =
      configuration_attrs (channels self')"
  proof (cases "components (channels self') = []")
    case True
    then show ?thesis
      by (cases chan_names) (simp_all add: select_channels_cases select_from_empty)
  next
    case False
    then show ?thesis
      using match_names_attrs [of hw self'] by (simp add: select_channels_cases)
  qed
  from init sel show ?thesis by blast
qed


section \<open>select_channels on the example devices\<close>

lemma example_components: "components (channels (example_scaler hw)) \<noteq> []"
proof -
  have "ScalerCH_channels \<noteq> []"
    using ScalerCH_channels_keys by auto
  then show ?thesis
    by (simp add: example_scaler_def ScalerCH_init_ok ScalerCH_new_def)
qed

lemma example_raises:
  "select_channels hw chan_names (example_scaler hw') =
     (Inl (AttributeError ''str'' ''get''), snd (match_names hw (example_scaler hw')))"
  by (simp add: select_channels_cases example_components)

lemma example_attrs_after_select:
  "read_attrs (channels (snd (select_channels hw chan_names (example_scaler hw')))) =
     [''sc_channels_chan01'', ''sc_channels_chan02'', ''sc_channels_chan03'',
      ''sc_channels_chan04'', ''sc_channels_chan05'', ''sc_channels_chan06'',
      ''sc_channels_chan07'', ''sc_channels_chan08'', ''sc_channels_chan09'',
      ''sc_channels_chan10'', ''sc_channels_chan11'', ''sc_channels_chan12'',
      ''sc_channels_chan13'', ''sc_channels_chan14'', ''sc_channels_chan15'',
      ''sc_channels_chan16'', ''sc_channels_chan17'', ''sc_channels_chan18'',
      ''sc_channels_chan19'', ''sc_channels_chan20'', ''sc_channels_chan21'',
      ''sc_channels_chan22'', ''sc_channels_chan23'', ''sc_channels_chan24'',
      ''sc_channels_chan25'', ''sc_channels_chan26'', ''sc_channels_chan27'',
      ''sc_channels_chan28'', ''sc_channels_chan29'', ''sc_channels_chan30'',
      ''sc_channels_chan31'', ''sc_channels_chan32''] \<and>
   configuration_attrs (channels (snd (select_channels hw chan_names (example_scaler hw')))) =
     [''sc_channels_chan01'', ''sc_channels_chan02'', ''sc_channels_chan03'',
      ''sc_channels_chan04'', ''sc_channels_chan05'', ''sc_channels_chan06'',
      ''sc_channels_chan07'', ''sc_channels_chan08'', ''sc_channels_chan09'',
      ''sc_channels_chan10'', ''sc_channels_chan11'', ''sc_channels_chan12'',
      ''sc_channels_chan13'', ''sc_channels_chan14'', ''sc_channels_chan15'',
      ''sc_channels_chan16'', ''sc_channels_chan17'', ''sc_channels_chan18'',
      ''sc_channels_chan19'', ''sc_channels_chan20'', ''sc_channels_chan21'',
      ''sc_channels_chan22'', ''sc_channels_chan23'', ''sc_channels_chan24'',
      ''sc_channels_chan25'', ''sc_channels_chan26'', ''sc_channels_chan27'',
      ''sc_channels_chan28'', ''sc_channels_chan29'', ''sc_channels_chan30'',
      ''sc_channels_chan31'', ''sc_channels_chan32''] \<and>
   hints (snd (select_channels hw chan_names (example_scaler hw'))) = []"
  using example_read_attrs [of hw'] match_names_attrs [of hw "example_scaler hw'"]
  by (simp add: example_raises) (simp add: example_scaler_def ScalerCH_init_ok ScalerCH_new_def)

lemma hw_35_named:
  "map (\<lambda>p. (fst p, Signal_get hw_35 (chname (snd p))))
     (filter (\<lambda>p. Signal_get hw_35 (chname (snd p)) \<noteq> [])
        (components (channels (example_scaler hw_35)))) =
   [(''chan03'', ''A''), (''chan05'', ''B'')]"
  by code_simp

lemma hw_XX_named:
  "map (\<lambda>p. (fst p, Signal_get hw_XX (chname (snd p))))
     (filter (\<lambda>p. Signal_get hw_XX (chname (snd p)) \<noteq> [])
        (components (channels (example_scaler hw_XX)))) =
   [(''chan02'', ''X''), (''chan07'', ''X'')]"
  by code_simp


lemma example_component_names:
  "component_names (channels (example_scaler hw)) = map fst ScalerCH_channels"
  by (simp add: example_scaler_def ScalerCH_init_ok component_names_def ScalerCH_new_def
      make_channel_fst comp_def)

theorem select_channels_matches_names_first_witness:
  "''chan03'' \<in> set (component_names (channels (example_scaler hw_149))) \<and>
   isl (fst (select_channels hw_35 [''nonexistent''] (example_scaler hw_149))) \<and>
   (\<exists>ch. getattr (channels (snd (select_channels hw_35 [''nonexistent''] (example_scaler hw_149))))
            ''chan03'' = Inr ch \<and>
         name (s ch) = Signal_get hw_35 (chname ch)) \<and>
   read_attrs (channels (snd (select_channels hw_35 [''nonexistent''] (example_scaler hw_149)))) =
     read_attrs (channels (example_scaler hw_149)) \<and>
   configuration_attrs (channels (snd (select_channels hw_35 [''nonexistent''] (example_scaler hw_149)))) =
     configuration_attrs (channels (example_scaler hw_149)) \<and>
   map_option (\<lambda>ch. name (s ch))
     (map_of (components (channels (example_scaler hw_149))) ''chan03'') = Some [] \<and>
   map_option (\<lambda>ch. name (s ch))
     (map_of (components (channels (snd (select_channels hw_35 [''nonexistent'']
        (example_scaler hw_149))))) ''chan03'') = Some ''A''"
proof -
  let ?X = "example_scaler hw_149"
  let ?R = "select_channels hw_35 [''nonexistent''] ?X"
  note T = select_channels_matches_names_first [of ?X hw_35 "[''nonexistent'']"]
  have mem: "''chan03'' \<in> set (component_names (channels ?X))"
    by (simp add: example_component_names ScalerCH_channels_keys)
  have err: "isl (fst ?R)"
    by (simp add: example_raises)
  have before: "map_option (\<lambda>ch. name (s ch)) (map_of (components (channels ?X)) ''chan03'') = Some []"
    by code_simp
  have after: "map_option (\<lambda>ch. name (s ch)) (map_of (components (channels (snd ?R))) ''chan03'')
                 = Some ''A''"
    by code_simp
  from T have "\<forall>a \<in> set (component_names (channels ?X)).
      \<exists>ch. getattr (channels (snd ?R)) a = Inr ch \<and> name (s ch) = Signal_get hw_35 (chname ch)"
    by (rule conjunct1)
  from this mem have ex: "\<exists>ch. getattr (channels (snd ?R)) ''chan03'' = Inr ch \<and>
      name (s ch) = Signal_get hw_35 (chname ch)"
    by (rule bspec)
  from T have "isl (fst ?R) \<longrightarrow>
      read_attrs (channels (snd ?R)) = read_attrs (channels ?X) \<and>
      configuration_attrs (channels (snd ?R)) = configuration_attrs (channels ?X)"
    by (rule conjunct2 [THEN conjunct2])
  from this err have un: "read_attrs (channels (snd ?R)) = read_attrs (channels ?X) \<and>
      configuration_attrs (channels (snd ?R)) = configuration_attrs (channels ?X)"
    by (rule mp)
  show ?thesis
    by (intro conjI mem err ex un [THEN conjunct1] un [THEN conjunct2] before after)
qed

text \<open>
  C2. \<^verbatim>\<open>select_channels(["nonexistent"])\<close> on the constructed device raises the
  \<^verbatim>\<open>AttributeError\<close> of line 159, not the \<^verbatim>\<open>RuntimeError\<close> of line 167 that names
  the requested channel and the known ones; the read set and the configuration read set
  are as before the call.
\<close>

theorem select_nonexistent_raises_AttributeError:
  "fst (select_channels hw_149 [''nonexistent''] (example_scaler hw_149)) =
     Inl (AttributeError ''str'' ''get'') \<and>
   read_attrs (channels (snd (select_channels hw_149 [''nonexistent''] (example_scaler hw_149)))) =
     read_attrs (channels (example_scaler hw_149)) \<and>
   configuration_attrs (channels (snd (select_channels hw_149 [''nonexistent''] (example_scaler hw_149)))) =
     configuration_attrs (channels (example_scaler hw_149))"
  using match_names_attrs [of hw_149 "example_scaler hw_149"]
  by (simp add: example_raises)


text \<open>
  C3. With the channels 3 and 5 named \<^verbatim>\<open>A\<close> and \<^verbatim>\<open>B\<close>,
  \<^verbatim>\<open>select_channels(["A", "B"])\<close> raises the \<^verbatim>\<open>AttributeError\<close> of line 159 and
  the read set stays what construction made it; it does not become
  \<^verbatim>\<open>["chan01", "chan03", "chan05"]\<close>.
\<close>

theorem select_A_B_raises_AttributeError:
  "map (\<lambda>p. (fst p, Signal_get hw_35 (chname (snd p))))
     (filter (\<lambda>p. Signal_get hw_35 (chname (snd p)) \<noteq> [])
        (components (channels (example_scaler hw_35)))) =
     [(''chan03'', ''A''), (''chan05'', ''B'')] \<and>
   fst (select_channels hw_35 [''A'', ''B''] (example_scaler hw_35)) =
     Inl (AttributeError ''str'' ''get'') \<and>
   read_attrs (channels (snd (select_channels hw_35 [''A'', ''B''] (example_scaler hw_35)))) =
     [''sc_channels_chan01'', ''sc_channels_chan02'', ''sc_channels_chan03'',
      ''sc_channels_chan04'', ''sc_channels_chan05'', ''sc_channels_chan06'',
      ''sc_channels_chan07'', ''sc_channels_chan08'', ''sc_channels_chan09'',
      ''sc_channels_chan10'', ''sc_channels_chan11'', ''sc_channels_chan12'',
      ''sc_channels_chan13'', ''sc_channels_chan14'', ''sc_channels_chan15'',
      ''sc_channels_chan16'', ''sc_channels_chan17'', ''sc_channels_chan18'',
      ''sc_channels_chan19'', ''sc_channels_chan20'', ''sc_channels_chan21'',
      ''sc_channels_chan22'', ''sc_channels_chan23'', ''sc_channels_chan24'',
      ''sc_channels_chan25'', ''sc_channels_chan26'', ''sc_channels_chan27'',
      ''sc_channels_chan28'', ''sc_channels_chan29'', ''sc_channels_chan30'',
      ''sc_channels_chan31'', ''sc_channels_chan32'']"
  using hw_35_named example_attrs_after_select [of hw_35 "[''A'', ''B'']" hw_35]
  by (simp add: example_raises)


text \<open>
  C4. With the channels 2 and 7 both named \<^verbatim>\<open>X\<close>, \<^verbatim>\<open>select_channels(["X"])\<close>
  raises the \<^verbatim>\<open>AttributeError\<close> of line 159: no reverse lookup is built and neither
  channel is selected.
\<close>

theorem select_duplicate_name_raises_AttributeError:
  "map (\<lambda>p. (fst p, Signal_get hw_XX (chname (snd p))))
     (filter (\<lambda>p. Signal_get hw_XX (chname (snd p)) \<noteq> [])
        (components (channels (example_scaler hw_XX)))) =
     [(''chan02'', ''X''), (''chan07'', ''X'')] \<and>
   fst (select_channels hw_XX [''X''] (example_scaler hw_XX)) =
     Inl (AttributeError ''str'' ''get'') \<and>
   read_attrs (channels (snd (select_channels hw_XX [''X''] (example_scaler hw_XX)))) =
     [''sc_channels_chan01'', ''sc_channels_chan02'', ''sc_channels_chan03'',
      ''sc_channels_chan04'', ''sc_channels_chan05'', ''sc_channels_chan06'',
      ''sc_channels_chan07'', ''sc_channels_chan08'', ''sc_channels_chan09'',
      ''sc_channels_chan10'', ''sc_channels_chan11'', ''sc_channels_chan12'',
      ''sc_channels_chan13'', ''sc_channels_chan14'', ''sc_channels_chan15'',
      ''sc_channels_chan16'', ''sc_channels_chan17'', ''sc_channels_chan18'',
      ''sc_channels_chan19'', ''sc_channels_chan20'', ''sc_channels_chan21'',
      ''sc_channels_chan22'', ''sc_channels_chan23'', ''sc_channels_chan24'',
      ''sc_channels_chan25'', ''sc_channels_chan26'', ''sc_channels_chan27'',
      ''sc_channels_chan28'', ''sc_channels_chan29'', ''sc_channels_chan30'',
      ''sc_channels_chan31'', ''sc_channels_chan32'']"
  using hw_XX_named example_attrs_after_select [of hw_XX "[''X'']" hw_XX]
  by (simp add: example_raises)


text \<open>
  C7. With the channels 3 and 5 named \<^verbatim>\<open>A\<close> and \<^verbatim>\<open>B\<close>,
  \<^verbatim>\<open>select_channels(["A", "B"])\<close> raises before line 172 and the hints keep their
  value from before the call; they do not become the display identities of the two
  requested channels.
\<close>

theorem select_A_B_leaves_hints:
  "fst (select_channels hw_35 [''A'', ''B''] (example_scaler hw_35)) =
     Inl (AttributeError ''str'' ''get'') \<and>
   hints (example_scaler hw_35) = [] \<and>
   hints (snd (select_channels hw_35 [''A'', ''B''] (example_scaler hw_35))) = []"
  using example_attrs_after_select [of hw_35 "[''A'', ''B'']" hw_35]
  by (simp add: example_raises) (simp add: example_scaler_def ScalerCH_init_ok ScalerCH_new_def)


end
